theory Spec2Isabelle
  imports Main "HOL-Library.Multiset" "HOL-Library.Char_ord" "HOL-Library.List_Lexorder"
begin

section \<open>Python objects and \<open>flipStemDirection\<close>\<close>

text \<open>
  The one function of the developer reference, \<^verbatim>\<open>flipStemDirection(n)\<close>, reads and
  writes the attribute \<^verbatim>\<open>stemDirection\<close> of its argument. A Python object is modelled
  by its attribute dictionary; reading a missing attribute raises \<^verbatim>\<open>AttributeError\<close>,
  assignment stores the value (as it does on the library's notes, where \<open>'up'\<close> and
  \<open>'down'\<close> are valid stem directions). The function mutates its argument in place, so
  the model returns the exception raised (if any) together with the object as the call
  leaves it. The name \<^verbatim>\<open>exceptions21\<close> is not bound in the notebook cell itself; it
  stands for the library module the docstring names, \<^verbatim>\<open>music21.exceptions21\<close>.
\<close>

datatype pyval = PStr string | PInt int | PBool bool | PNone

type_synonym pyobj = "string \<rightharpoonup> pyval"

datatype pyexc = AttributeError string | Music21Exception string

definition getattr :: "pyobj \<Rightarrow> string \<Rightarrow> pyexc + pyval" where
  "getattr n a = (case n a of None \<Rightarrow> Inl (AttributeError a) | Some v \<Rightarrow> Inr v)"

definition setattr :: "pyobj \<Rightarrow> string \<Rightarrow> pyval \<Rightarrow> pyobj" where
  "setattr n a v = n(a \<mapsto> v)"


text \<open>
  \<^verbatim>\<open>
  try:
      sd = n.stemDirection
  except AttributeError:
      raise exceptions21.Music21Exception("flipStemDirection only works on Notes")
  if sd == 'up':
      n.stemDirection = 'down'
  elif sd == 'down':
      n.stemDirection = 'up'
  \<close>
  The first component is \<open>None\<close> when the call returns (Python's \<^verbatim>\<open>None\<close>) and
  \<open>Some e\<close> when it raises \<open>e\<close>.
\<close>

definition flipStemDirection :: "pyobj \<Rightarrow> pyexc option \<times> pyobj" where
  "flipStemDirection n =
     (case getattr n ''stemDirection'' of
        Inl (AttributeError _) \<Rightarrow>
          (Some (Music21Exception ''flipStemDirection only works on Notes''), n)
      | Inl e \<Rightarrow> (Some e, n)
      | Inr sd \<Rightarrow>
          if sd = PStr ''up'' then (None, setattr n ''stemDirection'' (PStr ''down''))
          else if sd = PStr ''down'' then (None, setattr n ''stemDirection'' (PStr ''up''))
          else (None, n))"

text \<open>The attribute as a caller reads it after the call.\<close>

definition stemDirection :: "pyobj \<Rightarrow> pyval option" where
  "stemDirection n = n ''stemDirection''"

section \<open>The objects of the docstring\<close>

text \<open>
  The docstring's examples run on \<^verbatim>\<open>note.Note()\<close>, whose stem direction starts as
  \<open>'unspecified'\<close>, and on \<^verbatim>\<open>note.Rest()\<close>, which has no such attribute. Only the
  attributes the examples touch are kept.
\<close>

definition newNote :: pyobj where
  "newNote = [''stemDirection'' \<mapsto> PStr ''unspecified'', ''isRest'' \<mapsto> PBool False]"

definition newRest :: pyobj where
  "newRest = [''isRest'' \<mapsto> PBool True]"

section \<open>Test units and the order of a full run\<close>

text \<open>
  Modelled from the spec: the Test Unit of the data model (section 3). The discovery code
  that builds the units (\<^verbatim>\<open>test/multiprocessTest.py\<close> and the modules it walks) is not
  among the sources; the notebook only names it. A unit has a stable string \<open>id\<close>
  (the field is \<open>id_unit\<close> here, \<open>id\<close> being HOL's identity function), a kind, a speed
  class, a source location and a body: a reference to a check for a \<open>StateTest\<close>, the
  (statement, expected output lines) pairs for an \<open>ExampleTest\<close>.
\<close>

datatype kind = StateTest | ExampleTest

datatype speedClass = Normal | External | Slow

datatype body =
    Check string
  | Transcript "(string \<times> string list) list"

record testUnit =
  id_unit :: string
  kind :: kind
  speedClass :: speedClass
  sourceLocation :: "string \<times> nat option"
  body :: body

text \<open>
  Modelled from the spec: the Scheduler/Orderer (section 4.3), of which the notebook says
  only that the tests "run in reverse-alphabetical order (with some slow tests boosted to
  the beginning)". The default ordering key is the reverse lexicographic order of
  \<open>id\<close>: \<open>insertDescending\<close> puts a unit in front of the first unit whose id is not
  greater, so the list stays in descending order of id and units of equal id keep the
  order they came in. Strings compare as Python's do, character by character by code
  point, a proper prefix before its extensions.
\<close>

fun insertDescending :: "testUnit \<Rightarrow> testUnit list \<Rightarrow> testUnit list" where
  "insertDescending u [] = [u]"
| "insertDescending u (v # vs) =
     (if id_unit v \<le> id_unit u then u # v # vs else v # insertDescending u vs)"

definition reverseLexicographic :: "testUnit list \<Rightarrow> testUnit list" where
  "reverseLexicographic us = foldr insertDescending us []"

text \<open>
  Modelled from the spec: the boost marker is configuration data, a set of ids
  (section 9). Boosted units are moved to the front; the order among the boosted units
  and among the remainder is kept.
\<close>

definition dispatchOrder :: "string set \<Rightarrow> testUnit list \<Rightarrow> testUnit list" where
  "dispatchOrder boost us =
     (let ordered = reverseLexicographic us
      in filter (\<lambda>u. id_unit u \<in> boost) ordered @ filter (\<lambda>u. id_unit u \<notin> boost) ordered)"

text \<open>A list of units is in reverse lexicographic order when ids never increase along it.\<close>

definition descending :: "testUnit list \<Rightarrow> bool" where
  "descending us = sorted_wrt (\<lambda>u v. id_unit v \<le> id_unit u) us"

text \<open>A unit of the normal speed class with a given id, for concrete runs.\<close>

definition unitNamed :: "string \<Rightarrow> testUnit" where
  "unitNamed i = \<lparr>id_unit = i, kind = StateTest, speedClass = Normal,
     sourceLocation = (i, None), body = Check i\<rparr>"

section \<open>Properties of \<open>flipStemDirection\<close>\<close>

lemma flip_up:
  "n ''stemDirection'' = Some (PStr ''up'') \<Longrightarrow>
   flipStemDirection n = (None, n(''stemDirection'' \<mapsto> PStr ''down''))"
  by (simp add: flipStemDirection_def getattr_def setattr_def)

lemma flip_down:
  "n ''stemDirection'' = Some (PStr ''down'') \<Longrightarrow>
   flipStemDirection n = (None, n(''stemDirection'' \<mapsto> PStr ''up''))"
  by (simp add: flipStemDirection_def getattr_def setattr_def)

lemma flip_other:
  "n ''stemDirection'' = Some v \<Longrightarrow> v \<noteq> PStr ''up'' \<Longrightarrow> v \<noteq> PStr ''down'' \<Longrightarrow>
   flipStemDirection n = (None, n)"
  by (simp add: flipStemDirection_def getattr_def)

lemma flip_missing:
  "n ''stemDirection'' = None \<Longrightarrow>
   flipStemDirection n = (Some (Music21Exception ''flipStemDirection only works on Notes''), n)"
  by (simp add: flipStemDirection_def getattr_def)

lemma flip_twice_up:
  assumes "n ''stemDirection'' = Some (PStr ''up'')"
  shows "snd (flipStemDirection (snd (flipStemDirection n))) = n"
proof -
  let ?m = "n(''stemDirection'' \<mapsto> PStr ''down'')"
  have "?m ''stemDirection'' = Some (PStr ''down'')" by simp
  then have "flipStemDirection ?m = (None, ?m(''stemDirection'' \<mapsto> PStr ''up''))"
    by (rule flip_down)
  moreover have "?m(''stemDirection'' \<mapsto> PStr ''up'') = n"
    using assms by (simp add: map_upd_triv)
  ultimately show ?thesis using assms by (simp add: flip_up)
qed

lemma flip_twice_down:
  assumes "n ''stemDirection'' = Some (PStr ''down'')"
  shows "snd (flipStemDirection (snd (flipStemDirection n))) = n"
proof -
  let ?m = "n(''stemDirection'' \<mapsto> PStr ''up'')"
  have "?m ''stemDirection'' = Some (PStr ''up'')" by simp
  then have "flipStemDirection ?m = (None, ?m(''stemDirection'' \<mapsto> PStr ''down''))"
    by (rule flip_up)
  moreover have "?m(''stemDirection'' \<mapsto> PStr ''down'') = n"
    using assms by (simp add: map_upd_triv)
  ultimately show ?thesis using assms by (simp add: flip_down)
qed

text \<open>
  C9. \<open>flipStemDirection\<close> turns a stem direction \<open>'up'\<close> into \<open>'down'\<close> and \<open>'down'\<close>
  into \<open>'up'\<close>; on a note whose stem direction is one of the two, two calls restore the
  original stem direction (indeed the whole object); on a note whose stem direction is
  any other value, one call leaves the stem direction (and the object) as it was.
\<close>

theorem C9_flip_involution:
  "(stemDirection n = Some (PStr ''up'') \<longrightarrow>
      stemDirection (snd (flipStemDirection n)) = Some (PStr ''down'')) \<and>
   (stemDirection n = Some (PStr ''down'') \<longrightarrow>
      stemDirection (snd (flipStemDirection n)) = Some (PStr ''up'')) \<and>
   (stemDirection n = Some (PStr ''up'') \<or> stemDirection n = Some (PStr ''down'') \<longrightarrow>
      snd (flipStemDirection (snd (flipStemDirection n))) = n \<and>
      stemDirection (snd (flipStemDirection (snd (flipStemDirection n)))) = stemDirection n) \<and>
   (stemDirection n = Some v \<and> v \<noteq> PStr ''up'' \<and> v \<noteq> PStr ''down'' \<longrightarrow>
      flipStemDirection n = (None, n) \<and>
      stemDirection (snd (flipStemDirection n)) = Some v)"
proof (intro conjI impI)
  assume "stemDirection n = Some (PStr ''up'')"
  then show "stemDirection (snd (flipStemDirection n)) = Some (PStr ''down'')"
    by (simp add: stemDirection_def flip_up)
next
  assume "stemDirection n = Some (PStr ''down'')"
  then show "stemDirection (snd (flipStemDirection n)) = Some (PStr ''up'')"
    by (simp add: stemDirection_def flip_down)
next
  assume "stemDirection n = Some (PStr ''up'') \<or> stemDirection n = Some (PStr ''down'')"
  then show r: "snd (flipStemDirection (snd (flipStemDirection n))) = n"
    unfolding stemDirection_def using flip_twice_up flip_twice_down by blast
  show "stemDirection (snd (flipStemDirection (snd (flipStemDirection n)))) = stemDirection n"
    by (simp only: r)
next
  assume a: "stemDirection n = Some v \<and> v \<noteq> PStr ''up'' \<and> v \<noteq> PStr ''down''"
  then show r: "flipStemDirection n = (None, n)"
    by (simp add: stemDirection_def flip_other)
  show "stemDirection (snd (flipStemDirection n)) = Some v"
    using a by (simp add: r)
qed

theorem C9_flip_involution_witness:
  "stemDirection (setattr newNote ''stemDirection'' (PStr ''up'')) = Some (PStr ''up'') \<and>
   stemDirection (snd (flipStemDirection (setattr newNote ''stemDirection'' (PStr ''up''))))
     = Some (PStr ''down'') \<and>
   snd (flipStemDirection (snd (flipStemDirection (setattr newNote ''stemDirection'' (PStr ''up'')))))
     = setattr newNote ''stemDirection'' (PStr ''up'') \<and>
   stemDirection (setattr newNote ''stemDirection'' (PStr ''down'')) = Some (PStr ''down'') \<and>
   stemDirection (snd (flipStemDirection (setattr newNote ''stemDirection'' (PStr ''down''))))
     = Some (PStr ''up'') \<and>
   snd (flipStemDirection (snd (flipStemDirection (setattr newNote ''stemDirection'' (PStr ''down'')))))
     = setattr newNote ''stemDirection'' (PStr ''down'') \<and>
   stemDirection newNote = Some (PStr ''unspecified'') \<and>
   flipStemDirection newNote = (None, newNote) \<and>
   stemDirection (snd (flipStemDirection newNote)) = Some (PStr ''unspecified'')"
proof -
  let ?up = "setattr newNote ''stemDirection'' (PStr ''up'')"
  let ?down = "setattr newNote ''stemDirection'' (PStr ''down'')"
  have u: "stemDirection ?up = Some (PStr ''up'')"
    by (simp add: stemDirection_def setattr_def)
  have d: "stemDirection ?down = Some (PStr ''down'')"
    by (simp add: stemDirection_def setattr_def)
  have o: "stemDirection newNote = Some (PStr ''unspecified'')"
    by (simp add: stemDirection_def newNote_def)
  have neq: "PStr ''unspecified'' \<noteq> PStr ''up'' \<and> PStr ''unspecified'' \<noteq> PStr ''down''"
    by simp
  from u C9_flip_involution [of ?up "PStr ''up''"]
  have 1: "stemDirection (snd (flipStemDirection ?up)) = Some (PStr ''down'') \<and>
           snd (flipStemDirection (snd (flipStemDirection ?up))) = ?up"
    by blast
  from d C9_flip_involution [of ?down "PStr ''down''"]
  have 2: "stemDirection (snd (flipStemDirection ?down)) = Some (PStr ''up'') \<and>
           snd (flipStemDirection (snd (flipStemDirection ?down))) = ?down"
    by blast
  from o neq C9_flip_involution [of newNote "PStr ''unspecified''"]
  have 3: "flipStemDirection newNote = (None, newNote) \<and>
           stemDirection (snd (flipStemDirection newNote)) = Some (PStr ''unspecified'')"
    by blast
  from u d o 1 2 3 show ?thesis by blast
qed

text \<open>
  The docstring's own examples, read as a test of the function: a fresh note keeps
  \<open>'unspecified'\<close>, a note set to \<open>'up'\<close> goes to \<open>'down'\<close> and back, and a rest makes
  the call raise the documented exception.
\<close>

lemma flipStemDirection_docstring:
  "stemDirection newNote = Some (PStr ''unspecified'')"
  "flipStemDirection newNote = (None, newNote)"
  "stemDirection (snd (flipStemDirection (setattr newNote ''stemDirection'' (PStr ''up''))))
     = Some (PStr ''down'')"
  "stemDirection (snd (flipStemDirection
     (snd (flipStemDirection (setattr newNote ''stemDirection'' (PStr ''up''))))))
     = Some (PStr ''up'')"
  "fst (flipStemDirection newRest)
     = Some (Music21Exception ''flipStemDirection only works on Notes'')"
  by (simp_all add: flipStemDirection_def getattr_def setattr_def stemDirection_def
      newNote_def newRest_def)



section \<open>Properties of the dispatch order\<close>

lemma mset_insertDescending: "mset (insertDescending u vs) = add_mset u (mset vs)"
  by (induction vs) simp_all

lemma set_insertDescending: "set (insertDescending u vs) = insert u (set vs)"
  by (induction vs) auto

lemma mset_reverseLexicographic: "mset (reverseLexicographic us) = mset us"
  by (induction us) (simp_all add: reverseLexicographic_def mset_insertDescending)

lemma descending_insertDescending:
  "descending vs \<Longrightarrow> descending (insertDescending u vs)"
proof (induction vs)
  case Nil
  then show ?case by (simp add: descending_def)
next
  case (Cons v vs)
  show ?case
  proof (cases "id_unit v \<le> id_unit u")
    case True
    have "\<forall>w\<in>set vs. id_unit w \<le> id_unit v"
      using Cons.prems by (simp add: descending_def)
    with True have "\<forall>w\<in>set (v # vs). id_unit w \<le> id_unit u"
      by auto
    with True Cons.prems show ?thesis
      by (simp add: descending_def)
  next
    case False
    then have "id_unit u \<le> id_unit v" by simp
    moreover have "descending (insertDescending u vs)"
      using Cons by (simp add: descending_def)
    moreover have "\<forall>w\<in>set vs. id_unit w \<le> id_unit v"
      using Cons.prems by (simp add: descending_def)
    ultimately show ?thesis
      using False by (simp add: descending_def set_insertDescending)
  qed
qed

lemma descending_reverseLexicographic: "descending (reverseLexicographic us)"
proof (induction us)
  case Nil
  show ?case by (simp add: reverseLexicographic_def descending_def)
next
  case (Cons u us)
  then show ?case
    using descending_insertDescending [of "reverseLexicographic us" u]
    by (simp add: reverseLexicographic_def)
qed

lemma descending_filter: "descending us \<Longrightarrow> descending (filter P us)"
  by (simp add: descending_def sorted_wrt_filter)

lemma mset_dispatchOrder: "mset (dispatchOrder boost us) = mset us"
  by (simp add: dispatchOrder_def Let_def mset_reverseLexicographic)

lemma dispatchOrder_no_boost: "dispatchOrder {} us = reverseLexicographic us"
  by (simp add: dispatchOrder_def)

lemma dispatchOrder_three_no_boost:
  assumes "id_unit x = ''b''" "id_unit y = ''a''" "id_unit z = ''c''"
  shows "dispatchOrder {} [x, y, z] = [z, x, y]"
  using assms by (simp add: dispatchOrder_def reverseLexicographic_def)

lemma dispatchOrder_three_a_boosted:
  assumes "id_unit x = ''b''" "id_unit y = ''a''" "id_unit z = ''c''"
  shows "dispatchOrder {''a''} [x, y, z] = [y, z, x]"
  using assms by (simp add: dispatchOrder_def reverseLexicographic_def)

text \<open>
  C2. For every list of Test Units the dispatch order is an ordering of exactly those
  units in which the boosted units come first, and both the boosted group and the
  remainder are in reverse lexicographic order of id; with no boosted unit the whole
  order is reverse lexicographic. In particular units with ids \<open>b\<close>, \<open>a\<close>, \<open>c\<close> are
  dispatched in the order \<open>c\<close>, \<open>b\<close>, \<open>a\<close> when nothing is boosted and in the order
  \<open>a\<close>, \<open>c\<close>, \<open>b\<close> when \<open>a\<close> is boosted.
\<close>

theorem C2_dispatch_order:
  "mset (dispatchOrder boost us) = mset us \<and>
   (\<exists>front remainder.
      dispatchOrder boost us = front @ remainder \<and>
      (\<forall>u\<in>set front. id_unit u \<in> boost) \<and>
      (\<forall>u\<in>set remainder. id_unit u \<notin> boost) \<and>
      descending front \<and> descending remainder) \<and>
   descending (dispatchOrder {} us) \<and>
   (\<forall>x y z. id_unit x = ''b'' \<and> id_unit y = ''a'' \<and> id_unit z = ''c'' \<longrightarrow>
      dispatchOrder {} [x, y, z] = [z, x, y] \<and>
      dispatchOrder {''a''} [x, y, z] = [y, z, x])"
proof (intro conjI)
  show "mset (dispatchOrder boost us) = mset us"
    by (rule mset_dispatchOrder)
next
  let ?ordered = "reverseLexicographic us"
  let ?front = "filter (\<lambda>u. id_unit u \<in> boost) ?ordered"
  let ?remainder = "filter (\<lambda>u. id_unit u \<notin> boost) ?ordered"
  have "dispatchOrder boost us = ?front @ ?remainder"
    by (simp add: dispatchOrder_def Let_def)
  moreover have "\<forall>u\<in>set ?front. id_unit u \<in> boost" by simp
  moreover have "\<forall>u\<in>set ?remainder. id_unit u \<notin> boost" by simp
  moreover have "descending ?front" "descending ?remainder"
    by (simp_all add: descending_filter descending_reverseLexicographic)
  ultimately show "\<exists>front remainder.
      dispatchOrder boost us = front @ remainder \<and>
      (\<forall>u\<in>set front. id_unit u \<in> boost) \<and>
      (\<forall>u\<in>set remainder. id_unit u \<notin> boost) \<and>
      descending front \<and> descending remainder"
    by blast
next
  show "descending (dispatchOrder {} us)"
    by (simp add: dispatchOrder_no_boost descending_reverseLexicographic)
next
  show "\<forall>x y z. id_unit x = ''b'' \<and> id_unit y = ''a'' \<and> id_unit z = ''c'' \<longrightarrow>
      dispatchOrder {} [x, y, z] = [z, x, y] \<and>
      dispatchOrder {''a''} [x, y, z] = [y, z, x]"
    using dispatchOrder_three_no_boost dispatchOrder_three_a_boosted by blast
qed

theorem C2_dispatch_order_witness:
  "map id_unit (dispatchOrder {} [unitNamed ''b'', unitNamed ''a'', unitNamed ''c''])
     = [''c'', ''b'', ''a''] \<and>
   map id_unit (dispatchOrder {''a''} [unitNamed ''b'', unitNamed ''a'', unitNamed ''c''])
     = [''a'', ''c'', ''b''] \<and>
   descending (dispatchOrder {} [unitNamed ''b'', unitNamed ''a'', unitNamed ''c''])"
proof -
  let ?us = "[unitNamed ''b'', unitNamed ''a'', unitNamed ''c'']"
  have ids: "id_unit (unitNamed ''b'') = ''b'' \<and> id_unit (unitNamed ''a'') = ''a'' \<and>
             id_unit (unitNamed ''c'') = ''c''"
    by (simp add: unitNamed_def)
  from C2_dispatch_order [of "{}" ?us]
  have ex: "\<forall>x y z. id_unit x = ''b'' \<and> id_unit y = ''a'' \<and> id_unit z = ''c'' \<longrightarrow>
      dispatchOrder {} [x, y, z] = [z, x, y] \<and> dispatchOrder {''a''} [x, y, z] = [y, z, x]"
    and desc: "descending (dispatchOrder {} ?us)"
    by blast+
  from ex ids have "dispatchOrder {} ?us = [unitNamed ''c'', unitNamed ''b'', unitNamed ''a''] \<and>
      dispatchOrder {''a''} ?us = [unitNamed ''a'', unitNamed ''c'', unitNamed ''b'']"
    by blast
  with ids desc show ?thesis by simp
qed

end
